theory Spec2Isabelle
  imports Main "HOL-Library.Word"
begin

unbundle bit_operations_syntax

section \<open>The native message box of \<^verbatim>\<open>atom/browser/ui/message_box_win.cc\<close>\<close>

subsection \<open>Data\<close>

text \<open>
  A C++ \<^verbatim>\<open>int\<close> is a 32-bit word read in two's complement (\<open>sint\<close>); a
  \<^verbatim>\<open>size_t\<close> index is a \<open>nat\<close>, narrowed with \<open>word_of_nat\<close> where the source
  stores it in an \<^verbatim>\<open>int\<close>. A \<^verbatim>\<open>base::string16\<close> is a list of 16-bit code units, a
  \<^verbatim>\<open>std::string\<close> a list of bytes. Handles are numbers, \<open>0\<close> being \<^verbatim>\<open>NULL\<close>. A string
  pointer of the dialog configuration is \<open>None\<close> when it is \<^verbatim>\<open>NULL\<close> and \<open>Some s\<close>
  when it is the \<^verbatim>\<open>c_str()\<close> of \<open>s\<close>.
\<close>

type_synonym int32 = "32 word"
type_synonym string16 = "16 word list"
type_synonym HWND = nat
type_synonym HICON = nat
type_synonym HINSTANCE = nat
type_synonym NativeWindow = nat
type_synonym SkBitmap = "nat list"

text \<open>A \<^verbatim>\<open>gfx::ImageSkia\<close>: \<open>None\<close> when \<^verbatim>\<open>isNull()\<close>, else its \<^verbatim>\<open>bitmap()\<close>.\<close>

type_synonym ImageSkia = "SkBitmap option"

text \<open>A \<^verbatim>\<open>MessageBoxCallback\<close> is named by a number; running it is recorded in the world.\<close>

type_synonym MessageBoxCallback = nat

text \<open>
  Modelled from the spec: the \<^verbatim>\<open>MessageBoxType\<close> enumeration of \<^verbatim>\<open>message_box.h\<close>, whose
  declaration is not in this unit; the spec lists information, warning and error, the three
  enumerators the \<^verbatim>\<open>switch\<close> of the source names. The \<^verbatim>\<open>switch\<close> has no default: any
  other value of the enumeration type, kept here by its number, passes through it.
\<close>

datatype MessageBoxType =
    MESSAGE_BOX_TYPE_INFORMATION
  | MESSAGE_BOX_TYPE_WARNING
  | MESSAGE_BOX_TYPE_ERROR
  | MESSAGE_BOX_TYPE_other nat

text \<open>
  The Windows declarations the source uses (\<^verbatim>\<open>windows.h\<close>, \<^verbatim>\<open>commctrl.h\<close>): the built-in
  icon resources, the union of \<^verbatim>\<open>hMainIcon\<close> and \<^verbatim>\<open>pszMainIcon\<close>, the button and the
  configuration structures, the flag bits and \<^verbatim>\<open>IDCANCEL\<close>.
\<close>

datatype TD_ICON = TD_WARNING_ICON | TD_ERROR_ICON | TD_INFORMATION_ICON

datatype MainIcon = hMainIcon HICON | pszMainIcon "TD_ICON option"

record TASKDIALOG_BUTTON =
  nButtonID :: int32
  pszButtonText :: string16

record TASKDIALOGCONFIG =
  cbSize :: nat
  hwndParent :: HWND
  hInstance :: HINSTANCE
  dwFlags :: "32 word"
  pszWindowTitle :: "string16 option"
  MainIcon :: MainIcon
  pszMainInstruction :: "string16 option"
  pszContent :: "string16 option"
  cButtons :: "32 word"
  pButtons :: "TASKDIALOG_BUTTON list"

definition TDF_USE_HICON_MAIN :: "32 word" where
  "TDF_USE_HICON_MAIN = 0x0002"

definition TDF_ALLOW_DIALOG_CANCELLATION :: "32 word" where
  "TDF_ALLOW_DIALOG_CANCELLATION = 0x0008"

definition TDF_SIZE_TO_CONTENT :: "32 word" where
  "TDF_SIZE_TO_CONTENT = 0x01000000"

definition IDCANCEL :: int32 where
  "IDCANCEL = 2"

text \<open>A flag is set in a flag word when all its bits are.\<close>

definition flag_set :: "32 word \<Rightarrow> 32 word \<Rightarrow> bool" where
  "flag_set flags f = (flags AND f = f)"

text \<open>\<^verbatim>\<open>const int kIDStart = 100;\<close>\<close>

definition kIDStart :: int32 where
  "kIDStart = 100"

subsection \<open>The platform and the world\<close>

text \<open>
  The collaborators outside this unit are parameters. \<open>TaskDialogIndirect\<close> gives the
  identifier the call stores through its \<^verbatim>\<open>pnButton\<close> argument for a configuration,
  \<open>None\<close> when it stores nothing; \<open>Thread_Start\<close> is the answer of
  \<^verbatim>\<open>base::Thread::Start\<close>; \<open>sizeof_config\<close> is \<^verbatim>\<open>sizeof(TASKDIALOGCONFIG)\<close>.
\<close>

record platform =
  TaskDialogIndirect :: "TASKDIALOGCONFIG \<Rightarrow> int32 option"
  GetModuleHandle :: HINSTANCE
  CreateHICONFromSkBitmap :: "SkBitmap \<Rightarrow> HICON"
  UTF8ToUTF16 :: "string \<Rightarrow> string16"
  GetAcceleratedWidget :: "NativeWindow \<Rightarrow> HWND"
  Thread_Start :: bool
  sizeof_config :: nat

text \<open>
  Threads: the browser's UI thread, the message box threads the asynchronous call creates
  (numbered as they are created), and any other thread a caller may run on.
\<close>

datatype thread_id = BrowserThread_UI | MessageBoxThread nat | OtherThread nat

text \<open>
  The closures the source builds with \<^verbatim>\<open>base::Bind\<close> and hands to a message loop, with
  their bound arguments.
\<close>

datatype task =
    Bind_RunMessageBoxInNewThread nat "NativeWindow option" MessageBoxType "string list"
      int32 string string string ImageSkia MessageBoxCallback
  | Bind_callback MessageBoxCallback int32
  | Bind_DeleteSoon nat

text \<open>
  The state the unit acts on: the dialogs handed to the native call (oldest first), the
  callback runs with the thread they ran on, the tasks posted to message loops and not yet
  run, the \<^verbatim>\<open>base::Thread\<close> objects alive, the number of the next one, and the thread
  executing the code.
\<close>

record world =
  shown :: "TASKDIALOGCONFIG list"
  ran :: "(thread_id \<times> MessageBoxCallback \<times> int32) list"
  posted :: "(thread_id \<times> task) list"
  threads :: "nat list"
  next_thread :: nat
  current :: thread_id

text \<open>
  Undefined behaviour of the source is an error value: \<^verbatim>\<open>front()\<close> of an empty vector,
  and a signed subtraction whose result is not an \<^verbatim>\<open>int\<close>.
\<close>

datatype error = EmptyVectorFront | SignedOverflow

subsection \<open>\<^verbatim>\<open>ShowMessageBoxUTF16\<close>\<close>

text \<open>
  The loop of lines 35-36: \<^verbatim>\<open>for (size_t i = 0; i < buttons.size(); ++i)
  dialog_buttons.push_back({i + kIDStart, buttons[i].c_str()});\<close>
\<close>

function push_back_buttons ::
  "string16 list \<Rightarrow> nat \<Rightarrow> TASKDIALOG_BUTTON list \<Rightarrow> TASKDIALOG_BUTTON list" where
  "push_back_buttons buttons i dialog_buttons =
     (if i < length buttons
      then push_back_buttons buttons (Suc i)
             (dialog_buttons @
                [\<lparr>nButtonID = word_of_nat i + kIDStart, pszButtonText = buttons ! i\<rparr>])
      else dialog_buttons)"
  by pat_completeness auto
termination
  by (relation "measure (\<lambda>(buttons, i, dialog_buttons). length buttons - i)") auto

declare push_back_buttons.simps [simp del]

text \<open>
  Lines 34-77: the configuration handed to the native call. The initialiser \<^verbatim>\<open>{ 0 }\<close>
  zeroes the structure: the pointers start as \<open>None\<close>, and the fields the source never
  writes are left out. \<open>pButtons\<close> holds the vector itself; taking
  \<^verbatim>\<open>&dialog_buttons.front()\<close> is checked where the function is run, below.
\<close>

definition ShowMessageBoxUTF16_config ::
  "platform \<Rightarrow> HWND \<Rightarrow> MessageBoxType \<Rightarrow> string16 list \<Rightarrow> int32 \<Rightarrow> string16 \<Rightarrow>
   string16 \<Rightarrow> string16 \<Rightarrow> ImageSkia \<Rightarrow> TASKDIALOGCONFIG" where
  "ShowMessageBoxUTF16_config P parent type buttons cancel_id title message detail icon =
     (let dialog_buttons = push_back_buttons buttons 0 [];
          flags = TDF_SIZE_TO_CONTENT;
          flags = (if cancel_id \<noteq> 0 then flags OR TDF_ALLOW_DIALOG_CANCELLATION else flags);
          config = \<lparr>cbSize = sizeof_config P,
                    hwndParent = parent,
                    hInstance = GetModuleHandle P,
                    dwFlags = flags,
                    pszWindowTitle = Some title,
                    MainIcon = pszMainIcon None,
                    pszMainInstruction = None,
                    pszContent = None,
                    cButtons = word_of_nat (length dialog_buttons),
                    pButtons = dialog_buttons\<rparr>;
          config =
            (case icon of
               Some bitmap \<Rightarrow>
                 config\<lparr>dwFlags := dwFlags config OR TDF_USE_HICON_MAIN,
                        MainIcon := hMainIcon (CreateHICONFromSkBitmap P bitmap)\<rparr>
             | None \<Rightarrow>
                 (case type of
                    MESSAGE_BOX_TYPE_INFORMATION \<Rightarrow>
                      config\<lparr>MainIcon := pszMainIcon (Some TD_INFORMATION_ICON)\<rparr>
                  | MESSAGE_BOX_TYPE_WARNING \<Rightarrow>
                      config\<lparr>MainIcon := pszMainIcon (Some TD_WARNING_ICON)\<rparr>
                  | MESSAGE_BOX_TYPE_ERROR \<Rightarrow>
                      config\<lparr>MainIcon := pszMainIcon (Some TD_ERROR_ICON)\<rparr>
                  | MESSAGE_BOX_TYPE_other n \<Rightarrow> config))
      in if detail = []
         then config\<lparr>pszContent := Some message\<rparr>
         else config\<lparr>pszMainInstruction := Some message, pszContent := Some detail\<rparr>)"

text \<open>
  The whole function. The native call is recorded in the world; \<^verbatim>\<open>int id = 0\<close> keeps
  its value when the call stores nothing. Lines 81-84 map the identifier back.
\<close>

definition ShowMessageBoxUTF16 ::
  "platform \<Rightarrow> HWND \<Rightarrow> MessageBoxType \<Rightarrow> string16 list \<Rightarrow> int32 \<Rightarrow> string16 \<Rightarrow>
   string16 \<Rightarrow> string16 \<Rightarrow> ImageSkia \<Rightarrow> world \<Rightarrow> error + (int32 \<times> world)" where
  "ShowMessageBoxUTF16 P parent type buttons cancel_id title message detail icon w =
     (if push_back_buttons buttons 0 [] = [] then Inl EmptyVectorFront
      else
        let config = ShowMessageBoxUTF16_config P parent type buttons cancel_id title
                       message detail icon;
            id = (0 :: int32);
            id = (case TaskDialogIndirect P config of None \<Rightarrow> id | Some v \<Rightarrow> v);
            w = w\<lparr>shown := shown w @ [config]\<rparr>
        in if id = 0 \<or> id = IDCANCEL then Inr (cancel_id, w)
           else if sint id - sint kIDStart < - (2 ^ 31) then Inl SignedOverflow
           else Inr (id - kIDStart, w))"

subsection \<open>The public operations\<close>

text \<open>
  The synchronous \<^verbatim>\<open>ShowMessageBox\<close> (lines 107-132) converts its strings and hands
  over to \<open>ShowMessageBoxUTF16\<close>. The \<^verbatim>\<open>NativeWindow::DialogScope\<close> marker it holds
  during the call belongs to the parent window, whose state is outside this unit.
\<close>

definition ShowMessageBox ::
  "platform \<Rightarrow> NativeWindow option \<Rightarrow> MessageBoxType \<Rightarrow> string list \<Rightarrow> int32 \<Rightarrow> string \<Rightarrow>
   string \<Rightarrow> string \<Rightarrow> ImageSkia \<Rightarrow> world \<Rightarrow> error + (int32 \<times> world)" where
  "ShowMessageBox P parent type buttons cancel_id title message detail icon w =
     (let utf16_buttons = map (UTF8ToUTF16 P) buttons;
          hwnd_parent = (case parent of Some p \<Rightarrow> GetAcceleratedWidget P p | None \<Rightarrow> 0)
      in ShowMessageBoxUTF16 P hwnd_parent type utf16_buttons cancel_id
           (UTF8ToUTF16 P title) (UTF8ToUTF16 P message) (UTF8ToUTF16 P detail) icon w)"

text \<open>
  \<^verbatim>\<open>RunMessageBoxInNewThread\<close> (lines 87-103): the synchronous path, then the two posts
  to the UI thread.
\<close>

definition RunMessageBoxInNewThread ::
  "platform \<Rightarrow> nat \<Rightarrow> NativeWindow option \<Rightarrow> MessageBoxType \<Rightarrow> string list \<Rightarrow> int32 \<Rightarrow>
   string \<Rightarrow> string \<Rightarrow> string \<Rightarrow> ImageSkia \<Rightarrow> MessageBoxCallback \<Rightarrow> world \<Rightarrow> error + world" where
  "RunMessageBoxInNewThread P thread parent type buttons cancel_id title message detail icon
     callback w =
     (case ShowMessageBox P parent type buttons cancel_id title message detail icon w of
        Inl e \<Rightarrow> Inl e
      | Inr (result, w) \<Rightarrow>
          (let w = w\<lparr>posted := posted w @ [(BrowserThread_UI, Bind_callback callback result)]\<rparr>;
               w = w\<lparr>posted := posted w @ [(BrowserThread_UI, Bind_DeleteSoon thread)]\<rparr>
           in Inr w))"

text \<open>
  The asynchronous \<^verbatim>\<open>ShowMessageBox\<close> overload (lines 134-157). The new
  \<^verbatim>\<open>base::Thread\<close> is owned by a \<^verbatim>\<open>scoped_ptr\<close>, which deletes it on the early return;
  otherwise it is released and bound, unretained, into the task posted to its own loop.
  \<^verbatim>\<open>init_com_with_mta(false)\<close> configures the thread before it starts and changes nothing
  of the world.
\<close>

definition ShowMessageBoxAsync ::
  "platform \<Rightarrow> NativeWindow option \<Rightarrow> MessageBoxType \<Rightarrow> string list \<Rightarrow> int32 \<Rightarrow> string \<Rightarrow>
   string \<Rightarrow> string \<Rightarrow> ImageSkia \<Rightarrow> MessageBoxCallback \<Rightarrow> world \<Rightarrow> world" where
  "ShowMessageBoxAsync P parent type buttons cancel_id title message detail icon callback w =
     (let thread = next_thread w;
          w = w\<lparr>threads := threads w @ [thread], next_thread := Suc thread\<rparr>
      in if \<not> Thread_Start P
         then (let w = w\<lparr>ran := ran w @ [(current w, callback, cancel_id)]\<rparr>
               in w\<lparr>threads := removeAll thread (threads w)\<rparr>)
         else w\<lparr>posted := posted w @
                  [(MessageBoxThread thread,
                    Bind_RunMessageBoxInNewThread thread parent type buttons cancel_id title
                      message detail icon callback)]\<rparr>)"

text \<open>\<^verbatim>\<open>ShowErrorBox\<close> (lines 159-160) has an empty body.\<close>

definition ShowErrorBox :: "string16 \<Rightarrow> string16 \<Rightarrow> world \<Rightarrow> world" where
  "ShowErrorBox title content w = w"

subsection \<open>Running posted tasks\<close>

text \<open>Running a bound closure on the thread that executes it.\<close>

fun Run :: "platform \<Rightarrow> task \<Rightarrow> world \<Rightarrow> error + world" where
  "Run P (Bind_RunMessageBoxInNewThread thread parent type buttons cancel_id title message
            detail icon callback) w =
     RunMessageBoxInNewThread P thread parent type buttons cancel_id title message detail icon
       callback w"
| "Run P (Bind_callback callback result) w =
     Inr (w\<lparr>ran := ran w @ [(current w, callback, result)]\<rparr>)"
| "Run P (Bind_DeleteSoon thread) w =
     Inr (w\<lparr>threads := removeAll thread (threads w)\<rparr>)"

text \<open>
  A message loop takes the oldest task posted and runs it on the loop's thread. The measure
  of the work pending: a bound \<^verbatim>\<open>RunMessageBoxInNewThread\<close> posts two further tasks.
\<close>

fun weight :: "thread_id \<times> task \<Rightarrow> nat" where
  "weight (t, Bind_RunMessageBoxInNewThread thread parent type buttons cancel_id title message
                detail icon callback) = 3"
| "weight (t, Bind_callback callback result) = 1"
| "weight (t, Bind_DeleteSoon thread) = 1"

definition pending :: "world \<Rightarrow> nat" where
  "pending w = sum_list (map weight (posted w))"

function run_loops :: "platform \<Rightarrow> world \<Rightarrow> error + world" where
  "run_loops P w =
     (case posted w of
        [] \<Rightarrow> Inr w
      | (t, task) # rest \<Rightarrow>
          (case Run P task (w\<lparr>posted := rest, current := t\<rparr>) of
             Inl e \<Rightarrow> Inl e
           | Inr w' \<Rightarrow> run_loops P w'))"
  by pat_completeness auto
termination
proof (relation "measure (\<lambda>(P, w). pending w)")
  show "wf (measure (\<lambda>(P, w). pending w))"
    by simp
next
  fix P :: platform and w w' :: world and t task rest x
  assume p: "posted w = x # rest" and x: "(t, task) = x"
    and r: "Run P task (w\<lparr>posted := rest, current := t\<rparr>) = Inr w'"
  have "pending w' < weight (t, task) + pending (w\<lparr>posted := rest, current := t\<rparr>)"
    using r
    by (cases task)
       (auto simp: pending_def RunMessageBoxInNewThread_def ShowMessageBox_def
          ShowMessageBoxUTF16_def Let_def split: sum.splits if_splits)
  also have "\<dots> = pending w"
    using p x by (auto simp: pending_def)
  finally show "((P, w'), (P, w)) \<in> measure (\<lambda>(P, w). pending w)"
    by simp
qed

declare run_loops.simps [simp del]

subsection \<open>A request to run the operations on\<close>

text \<open>
  The scenario of the spec: the buttons "OK" and "Cancel" in UTF-16 and in bytes, on a
  platform whose dialog answers with a fixed identifier, in a world where nothing has
  happened yet.
\<close>

definition ok_cancel16 :: "string16 list" where
  "ok_cancel16 = [[0x4F, 0x4B], [0x43, 0x61, 0x6E, 0x63, 0x65, 0x6C]]"

definition ok_cancel :: "string list" where
  "ok_cancel = [''OK'', ''Cancel'']"

definition answering :: "int32 option \<Rightarrow> bool \<Rightarrow> platform" where
  "answering answer started =
     \<lparr>TaskDialogIndirect = (\<lambda>config. answer),
      GetModuleHandle = 4194304,
      CreateHICONFromSkBitmap = (\<lambda>bitmap. Suc (length bitmap)),
      UTF8ToUTF16 = map (\<lambda>c. word_of_nat (of_char c)),
      GetAcceleratedWidget = (\<lambda>window. window),
      Thread_Start = started,
      sizeof_config = 160\<rparr>"

definition idle :: world where
  "idle = \<lparr>shown = [], ran = [], posted = [], threads = [], next_thread = 0,
           current = BrowserThread_UI\<rparr>"

section \<open>Properties\<close>

subsection \<open>The button loop\<close>

lemma push_back_buttons_eq:
  "push_back_buttons buttons i acc =
     acc @ map (\<lambda>j. \<lparr>nButtonID = word_of_nat j + kIDStart, pszButtonText = buttons ! j\<rparr>)
             [i ..< length buttons]"
proof (induction buttons i acc rule: push_back_buttons.induct)
  case (1 buttons i dialog_buttons)
  show ?case
  proof (cases "i < length buttons")
    case True
    with "1" show ?thesis
      by (subst push_back_buttons.simps) (simp add: upt_conv_Cons)
  next
    case False
    then show ?thesis
      by (subst push_back_buttons.simps) simp
  qed
qed

lemma dialog_buttons_empty: "(push_back_buttons buttons 0 [] = []) = (buttons = [])"
  by (simp add: push_back_buttons_eq)




lemma config_TaskDialogIndirect_update:
  "ShowMessageBoxUTF16_config (P\<lparr>TaskDialogIndirect := f\<rparr>) parent type buttons cancel_id
     title message detail icon =
   ShowMessageBoxUTF16_config P parent type buttons cancel_id title message detail icon"
  by (simp add: ShowMessageBoxUTF16_config_def Let_def split: option.splits)

subsection \<open>Identifiers as \<^verbatim>\<open>int\<close>\<close>




subsection \<open>The synchronous path\<close>


lemma ShowMessageBoxUTF16_cancel:
  assumes "buttons \<noteq> []"
    and "TaskDialogIndirect P
           (ShowMessageBoxUTF16_config P parent type buttons cancel_id title message detail icon)
         \<in> {None, Some 0, Some IDCANCEL}"
  shows "ShowMessageBoxUTF16 P parent type buttons cancel_id title message detail icon w =
           Inr (cancel_id,
                w\<lparr>shown := shown w @
                   [ShowMessageBoxUTF16_config P parent type buttons cancel_id title message
                      detail icon]\<rparr>)"
  using assms by (auto simp: ShowMessageBoxUTF16_def Let_def dialog_buttons_empty)

lemma ShowMessageBoxUTF16_world:
  assumes "ShowMessageBoxUTF16 P parent type buttons cancel_id title message detail icon w =
             Inr (r, ws)"
  shows "ShowMessageBoxUTF16 P parent type buttons cancel_id title message detail icon u =
           Inr (r, u\<lparr>shown := shown u @
             [ShowMessageBoxUTF16_config P parent type buttons cancel_id title message detail
                icon]\<rparr>)"
    and "ws = w\<lparr>shown := shown w @
             [ShowMessageBoxUTF16_config P parent type buttons cancel_id title message detail
                icon]\<rparr>"
  using assms by (auto simp: ShowMessageBoxUTF16_def Let_def split: if_splits)

lemma ShowMessageBox_world:
  assumes "ShowMessageBox P parent type buttons cancel_id title message detail icon w =
             Inr (r, ws)"
  shows "\<exists>config. ws = w\<lparr>shown := shown w @ [config]\<rparr>
           \<and> (\<forall>u. ShowMessageBox P parent type buttons cancel_id title message detail icon u =
                     Inr (r, u\<lparr>shown := shown u @ [config]\<rparr>))"
proof -
  let ?h = "case parent of Some p \<Rightarrow> GetAcceleratedWidget P p | None \<Rightarrow> 0"
  let ?c = "ShowMessageBoxUTF16_config P ?h type (map (UTF8ToUTF16 P) buttons) cancel_id
              (UTF8ToUTF16 P title) (UTF8ToUTF16 P message) (UTF8ToUTF16 P detail) icon"
  have a: "ShowMessageBoxUTF16 P ?h type (map (UTF8ToUTF16 P) buttons) cancel_id
              (UTF8ToUTF16 P title) (UTF8ToUTF16 P message) (UTF8ToUTF16 P detail) icon w =
             Inr (r, ws)"
    using assms by (simp add: ShowMessageBox_def Let_def)
  have "ws = w\<lparr>shown := shown w @ [?c]\<rparr>"
    by (rule ShowMessageBoxUTF16_world(2) [OF a])
  moreover have "ShowMessageBox P parent type buttons cancel_id title message detail icon u =
                     Inr (r, u\<lparr>shown := shown u @ [?c]\<rparr>)" for u
    using ShowMessageBoxUTF16_world(1) [OF a, of u] by (simp add: ShowMessageBox_def Let_def)
  ultimately show ?thesis by blast
qed



text \<open>
  Claim C2. With a button sequence that is not empty, when the native call stores nothing
  or \<open>0\<close> (no identifier), or stores \<^verbatim>\<open>IDCANCEL\<close>, \<open>ShowMessageBoxUTF16\<close> returns
  exactly the cancel index it was given. The result, value and world, is the same in the
  three cases, and a platform whose dialog is cancelled gives the result of one whose call
  stores nothing: a caller cannot tell a cancelled dialog from a failed call.
\<close>

theorem cancel_or_no_identifier:
  assumes "buttons \<noteq> []"
    and "TaskDialogIndirect P
           (ShowMessageBoxUTF16_config P parent type buttons cancel_id title message detail icon)
         \<in> {None, Some 0, Some IDCANCEL}"
  shows "ShowMessageBoxUTF16 P parent type buttons cancel_id title message detail icon w =
           Inr (cancel_id,
                w\<lparr>shown := shown w @
                   [ShowMessageBoxUTF16_config P parent type buttons cancel_id title message
                      detail icon]\<rparr>)
       \<and> ShowMessageBoxUTF16 (P\<lparr>TaskDialogIndirect := (\<lambda>config. Some IDCANCEL)\<rparr>) parent type
           buttons cancel_id title message detail icon w =
         ShowMessageBoxUTF16 (P\<lparr>TaskDialogIndirect := (\<lambda>config. None)\<rparr>) parent type
           buttons cancel_id title message detail icon w"
proof -
  have "ShowMessageBoxUTF16 (P\<lparr>TaskDialogIndirect := (\<lambda>config. Some IDCANCEL)\<rparr>) parent type
           buttons cancel_id title message detail icon w =
         ShowMessageBoxUTF16 (P\<lparr>TaskDialogIndirect := (\<lambda>config. None)\<rparr>) parent type
           buttons cancel_id title message detail icon w"
    by (simp add: ShowMessageBoxUTF16_def Let_def config_TaskDialogIndirect_update)
  then show ?thesis
    using ShowMessageBoxUTF16_cancel [OF assms] by simp
qed

text \<open>The scenario of the spec: the same buttons, the user dismisses the dialog; and a failed call.\<close>

theorem cancel_or_no_identifier_witness:
  "ShowMessageBoxUTF16 (answering (Some IDCANCEL) True) 0 MESSAGE_BOX_TYPE_INFORMATION
     ok_cancel16 1 [] [0x48, 0x69] [] None idle =
   Inr (1, idle\<lparr>shown :=
     [ShowMessageBoxUTF16_config (answering (Some IDCANCEL) True) 0
        MESSAGE_BOX_TYPE_INFORMATION ok_cancel16 1 [] [0x48, 0x69] [] None]\<rparr>)
   \<and> ShowMessageBoxUTF16 (answering None True) 0 MESSAGE_BOX_TYPE_INFORMATION
     ok_cancel16 1 [] [0x48, 0x69] [] None idle =
   Inr (1, idle\<lparr>shown :=
     [ShowMessageBoxUTF16_config (answering None True) 0
        MESSAGE_BOX_TYPE_INFORMATION ok_cancel16 1 [] [0x48, 0x69] [] None]\<rparr>)"
  using cancel_or_no_identifier [of ok_cancel16 "answering (Some IDCANCEL) True" 0
      MESSAGE_BOX_TYPE_INFORMATION 1 "[]" "[0x48, 0x69]" "[]" None idle]
    cancel_or_no_identifier [of ok_cancel16 "answering None True" 0
      MESSAGE_BOX_TYPE_INFORMATION 1 "[]" "[0x48, 0x69]" "[]" None idle]
  by (simp add: ok_cancel16_def answering_def idle_def)






subsection \<open>The asynchronous path\<close>

lemma run_loops_Nil: "posted w = [] \<Longrightarrow> run_loops P w = Inr w"
  by (subst run_loops.simps) simp

lemma run_loops_Cons:
  "posted w = (t, task) # rest \<Longrightarrow>
   run_loops P w =
     (case Run P task (w\<lparr>posted := rest, current := t\<rparr>) of
        Inl e \<Rightarrow> Inl e
      | Inr w' \<Rightarrow> run_loops P w')"
  by (subst run_loops.simps) simp

lemma RunMessageBoxInNewThread_posts:
  assumes "ShowMessageBox P parent type buttons cancel_id title message detail icon w =
             Inr (result, ws)"
  shows "\<exists>config. ws = w\<lparr>shown := shown w @ [config]\<rparr>
           \<and> (\<forall>u. RunMessageBoxInNewThread P thread parent type buttons cancel_id title message
                      detail icon callback u =
                    Inr (u\<lparr>shown := shown u @ [config],
                           posted := posted u @
                             [(BrowserThread_UI, Bind_callback callback result),
                              (BrowserThread_UI, Bind_DeleteSoon thread)]\<rparr>))"
proof -
  obtain config where ws: "ws = w\<lparr>shown := shown w @ [config]\<rparr>"
    and s: "\<And>u. ShowMessageBox P parent type buttons cancel_id title message detail icon u =
                 Inr (result, u\<lparr>shown := shown u @ [config]\<rparr>)"
    using ShowMessageBox_world [OF assms] by blast
  have "RunMessageBoxInNewThread P thread parent type buttons cancel_id title message detail
             icon callback u =
           Inr (u\<lparr>shown := shown u @ [config],
                  posted := posted u @ [(BrowserThread_UI, Bind_callback callback result),
                                        (BrowserThread_UI, Bind_DeleteSoon thread)]\<rparr>)" for u
    by (simp add: RunMessageBoxInNewThread_def s Let_def)
  with ws show ?thesis by blast
qed

lemma async_run_loops:
  assumes "Thread_Start P"
    and "posted w = []"
    and "ShowMessageBox P parent type buttons cancel_id title message detail icon w =
           Inr (result, ws)"
  shows "\<exists>w'. run_loops P (ShowMessageBoxAsync P parent type buttons cancel_id title message
                            detail icon callback w) = Inr w'
            \<and> ran w' = ran w @ [(BrowserThread_UI, callback, result)]
            \<and> shown w' = shown ws
            \<and> posted w' = []
            \<and> next_thread w \<notin> set (threads w')"
proof -
  let ?t = "next_thread w"
  let ?T = "Bind_RunMessageBoxInNewThread ?t parent type buttons cancel_id title
               message detail icon callback"
  let ?a = "ShowMessageBoxAsync P parent type buttons cancel_id title message detail icon
              callback w"
  obtain config where ws: "ws = w\<lparr>shown := shown w @ [config]\<rparr>"
    and r: "\<And>u. RunMessageBoxInNewThread P ?t parent type buttons cancel_id title message
                   detail icon callback u =
                 Inr (u\<lparr>shown := shown u @ [config],
                        posted := posted u @
                          [(BrowserThread_UI, Bind_callback callback result),
                           (BrowserThread_UI, Bind_DeleteSoon ?t)]\<rparr>)"
    using RunMessageBoxInNewThread_posts [OF assms(3), of ?t callback] by blast
  have a: "?a = w\<lparr>threads := threads w @ [?t], next_thread := Suc ?t,
                  posted := [(MessageBoxThread ?t, ?T)]\<rparr>"
    using assms(1,2) by (simp add: ShowMessageBoxAsync_def Let_def)
  have p: "posted ?a = [(MessageBoxThread ?t, ?T)]"
    by (simp add: a)
  let ?w1 = "w\<lparr>threads := threads w @ [?t], next_thread := Suc ?t,
               current := MessageBoxThread ?t, shown := shown w @ [config],
               posted := [(BrowserThread_UI, Bind_callback callback result),
                          (BrowserThread_UI, Bind_DeleteSoon ?t)]\<rparr>"
  let ?w2 = "w\<lparr>threads := threads w @ [?t], next_thread := Suc ?t,
               shown := shown w @ [config],
               posted := [(BrowserThread_UI, Bind_DeleteSoon ?t)],
               current := BrowserThread_UI,
               ran := ran w @ [(BrowserThread_UI, callback, result)]\<rparr>"
  let ?w3 = "w\<lparr>next_thread := Suc ?t,
               shown := shown w @ [config],
               ran := ran w @ [(BrowserThread_UI, callback, result)],
               posted := [],
               current := BrowserThread_UI,
               threads := removeAll ?t (threads w @ [?t])\<rparr>"
  have "run_loops P ?a = run_loops P ?w1"
    by (subst run_loops_Cons [OF p]) (simp add: r a assms(2))
  also have "\<dots> = run_loops P ?w2"
    by (subst run_loops_Cons [of ?w1 BrowserThread_UI "Bind_callback callback result"
          "[(BrowserThread_UI, Bind_DeleteSoon ?t)]"]) simp_all
  also have "\<dots> = run_loops P ?w3"
    by (subst run_loops_Cons [of ?w2 BrowserThread_UI "Bind_DeleteSoon ?t" "[]"]) simp_all
  also have "\<dots> = Inr ?w3"
    by (rule run_loops_Nil) simp
  finally have l: "run_loops P ?a = Inr ?w3" .
  show ?thesis
    unfolding l by (simp add: ws)
qed

text \<open>
  Claim C4. When \<^verbatim>\<open>thread->Start()\<close> fails, the asynchronous \<^verbatim>\<open>ShowMessageBox\<close> runs
  the callback itself, on the thread that called it, with exactly the cancel index; it
  shows no dialog and posts no task. The operation has no failing step: it returns a world.
\<close>

theorem thread_start_failure:
  assumes "\<not> Thread_Start P"
  shows "ran (ShowMessageBoxAsync P parent type buttons cancel_id title message detail icon
                callback w) = ran w @ [(current w, callback, cancel_id)]
       \<and> shown (ShowMessageBoxAsync P parent type buttons cancel_id title message detail icon
                callback w) = shown w
       \<and> posted (ShowMessageBoxAsync P parent type buttons cancel_id title message detail icon
                callback w) = posted w"
  using assms by (simp add: ShowMessageBoxAsync_def Let_def)

theorem thread_start_failure_witness:
  "ran (ShowMessageBoxAsync (answering (Some 100) False) None MESSAGE_BOX_TYPE_WARNING ok_cancel
          1 ''t'' ''m'' '''' None 7 idle) = [(BrowserThread_UI, 7, 1)]
   \<and> shown (ShowMessageBoxAsync (answering (Some 100) False) None MESSAGE_BOX_TYPE_WARNING
          ok_cancel 1 ''t'' ''m'' '''' None 7 idle) = []
   \<and> posted (ShowMessageBoxAsync (answering (Some 100) False) None MESSAGE_BOX_TYPE_WARNING
          ok_cancel 1 ''t'' ''m'' '''' None 7 idle) = []"
  using thread_start_failure [of "answering (Some 100) False" None MESSAGE_BOX_TYPE_WARNING
      ok_cancel 1 "''t''" "''m''" "''''" None 7 idle]
  by (simp add: answering_def idle_def)

text \<open>
  Claim C5. When the worker thread starts and the synchronous \<^verbatim>\<open>ShowMessageBox\<close> returns
  \<open>result\<close> for the same arguments, the asynchronous call runs no callback itself and
  posts the bound \<^verbatim>\<open>RunMessageBoxInNewThread\<close> to the new thread's loop; run there, in
  whatever world, it posts to the UI thread the callback bound to \<open>result\<close> and then the
  deletion of the thread object; and when nothing else was pending, once the loops have run
  the callback has run once more, on the UI thread, with \<open>result\<close>, the dialog of the
  synchronous path has been shown, nothing is left posted and the thread object is gone.
\<close>

theorem async_delivers_sync_result:
  assumes "Thread_Start P"
    and "ShowMessageBox P parent type buttons cancel_id title message detail icon w =
           Inr (result, ws)"
  shows "posted (ShowMessageBoxAsync P parent type buttons cancel_id title message detail icon
                   callback w) =
           posted w @
           [(MessageBoxThread (next_thread w),
             Bind_RunMessageBoxInNewThread (next_thread w) parent type buttons cancel_id title
               message detail icon callback)]
       \<and> ran (ShowMessageBoxAsync P parent type buttons cancel_id title message detail icon
                   callback w) = ran w
       \<and> (\<forall>u. \<exists>w1. Run P (Bind_RunMessageBoxInNewThread (next_thread w) parent type buttons
                             cancel_id title message detail icon callback) u = Inr w1
                  \<and> posted w1 = posted u @
                      [(BrowserThread_UI, Bind_callback callback result),
                       (BrowserThread_UI, Bind_DeleteSoon (next_thread w))]
                  \<and> ran w1 = ran u)
       \<and> (posted w = [] \<longrightarrow>
            (\<exists>w'. run_loops P (ShowMessageBoxAsync P parent type buttons cancel_id title
                                  message detail icon callback w) = Inr w'
                 \<and> ran w' = ran w @ [(BrowserThread_UI, callback, result)]
                 \<and> shown w' = shown ws
                 \<and> posted w' = []
                 \<and> next_thread w \<notin> set (threads w')))"
proof -
  have a: "posted (ShowMessageBoxAsync P parent type buttons cancel_id title message detail icon
                   callback w) =
           posted w @
           [(MessageBoxThread (next_thread w),
             Bind_RunMessageBoxInNewThread (next_thread w) parent type buttons cancel_id title
               message detail icon callback)]"
    using assms(1) by (simp add: ShowMessageBoxAsync_def Let_def)
  have b: "ran (ShowMessageBoxAsync P parent type buttons cancel_id title message detail icon
                   callback w) = ran w"
    using assms(1) by (simp add: ShowMessageBoxAsync_def Let_def)
  have c: "\<exists>w1. Run P (Bind_RunMessageBoxInNewThread (next_thread w) parent type buttons
                             cancel_id title message detail icon callback) u = Inr w1
                  \<and> posted w1 = posted u @
                      [(BrowserThread_UI, Bind_callback callback result),
                       (BrowserThread_UI, Bind_DeleteSoon (next_thread w))]
                  \<and> ran w1 = ran u" for u
    using RunMessageBoxInNewThread_posts [OF assms(2), of "next_thread w" callback] by auto
  show ?thesis
    using a b c async_run_loops [OF assms(1) _ assms(2), of callback] by blast
qed

lemma ShowMessageBox_ok_cancel:
  "ShowMessageBox (answering (Some 100) True) None MESSAGE_BOX_TYPE_WARNING ok_cancel 1
     ''t'' ''m'' '''' None idle =
   Inr (0, idle\<lparr>shown :=
     [ShowMessageBoxUTF16_config (answering (Some 100) True) 0 MESSAGE_BOX_TYPE_WARNING
        ok_cancel16 1 [0x74] [0x6D] [] None]\<rparr>)"
  by (simp add: ShowMessageBox_def ShowMessageBoxUTF16_def Let_def ok_cancel_def ok_cancel16_def
      answering_def idle_def dialog_buttons_empty kIDStart_def IDCANCEL_def)

theorem async_delivers_sync_result_witness:
  "\<exists>w'. run_loops (answering (Some 100) True)
           (ShowMessageBoxAsync (answering (Some 100) True) None MESSAGE_BOX_TYPE_WARNING
              ok_cancel 1 ''t'' ''m'' '''' None 7 idle) = Inr w'
        \<and> ran w' = [(BrowserThread_UI, 7, 0)]
        \<and> shown w' =
            [ShowMessageBoxUTF16_config (answering (Some 100) True) 0 MESSAGE_BOX_TYPE_WARNING
               ok_cancel16 1 [0x74] [0x6D] [] None]
        \<and> posted w' = []
        \<and> 0 \<notin> set (threads w')"
proof -
  have t: "Thread_Start (answering (Some 100) True)"
    by (simp add: answering_def)
  have p: "posted idle = []"
    by (simp add: idle_def)
  show ?thesis
    using async_delivers_sync_result [OF t ShowMessageBox_ok_cancel, of 7] p
    by (auto simp: idle_def)
qed

subsection \<open>The dialog configuration\<close>

text \<open>
  The configuration the next three properties are about is the one
  \<open>ShowMessageBoxUTF16\<close> hands to the native call and records as shown
  (\<open>ShowMessageBoxUTF16_world\<close>).
\<close>

text \<open>
  Claim C6. If the detail string is empty, the content of the dialog is the message and
  no main instruction is set; otherwise the message is the main instruction and the
  detail is the content.
\<close>

theorem content_and_main_instruction:
  "(detail = [] \<longrightarrow>
      pszContent (ShowMessageBoxUTF16_config P parent type buttons cancel_id title message
                    detail icon) = Some message
    \<and> pszMainInstruction (ShowMessageBoxUTF16_config P parent type buttons cancel_id title
                    message detail icon) = None)
 \<and> (detail \<noteq> [] \<longrightarrow>
      pszMainInstruction (ShowMessageBoxUTF16_config P parent type buttons cancel_id title
                    message detail icon) = Some message
    \<and> pszContent (ShowMessageBoxUTF16_config P parent type buttons cancel_id title message
                    detail icon) = Some detail)"
  by (simp add: ShowMessageBoxUTF16_config_def Let_def split: option.splits MessageBoxType.splits)

theorem content_and_main_instruction_witness:
  "pszContent (ShowMessageBoxUTF16_config (answering None True) 0 MESSAGE_BOX_TYPE_WARNING
     ok_cancel16 1 [0x74] [0x6D] [] None) = Some [0x6D]
 \<and> pszMainInstruction (ShowMessageBoxUTF16_config (answering None True) 0
     MESSAGE_BOX_TYPE_WARNING ok_cancel16 1 [0x74] [0x6D] [] None) = None
 \<and> pszMainInstruction (ShowMessageBoxUTF16_config (answering None True) 0
     MESSAGE_BOX_TYPE_WARNING ok_cancel16 1 [0x74] [0x6D] [0x64] None) = Some [0x6D]
 \<and> pszContent (ShowMessageBoxUTF16_config (answering None True) 0 MESSAGE_BOX_TYPE_WARNING
     ok_cancel16 1 [0x74] [0x6D] [0x64] None) = Some [0x64]"
  using content_and_main_instruction [of "[]" "answering None True" 0 MESSAGE_BOX_TYPE_WARNING
      ok_cancel16 1 "[0x74]" "[0x6D]" None]
    content_and_main_instruction [of "[0x64]" "answering None True" 0 MESSAGE_BOX_TYPE_WARNING
      ok_cancel16 1 "[0x74]" "[0x6D]" None]
  by simp

text \<open>
  Claim C7. If an icon image is supplied, the main icon of the dialog is the native icon
  made from its bitmap, \<^verbatim>\<open>TDF_USE_HICON_MAIN\<close> is set and the type plays no part in the
  configuration; only without an image is the main icon the built-in resource of the type
  (information, warning or error; none for another value of the enumeration), and
  \<^verbatim>\<open>TDF_USE_HICON_MAIN\<close> is then not set.
\<close>

theorem icon_precedence:
  "(\<forall>bitmap. icon = Some bitmap \<longrightarrow>
      MainIcon (ShowMessageBoxUTF16_config P parent type buttons cancel_id title message detail
                  icon) = hMainIcon (CreateHICONFromSkBitmap P bitmap)
    \<and> flag_set (dwFlags (ShowMessageBoxUTF16_config P parent type buttons cancel_id title
                  message detail icon)) TDF_USE_HICON_MAIN
    \<and> (\<forall>type'. ShowMessageBoxUTF16_config P parent type' buttons cancel_id title message detail
                  icon =
                ShowMessageBoxUTF16_config P parent type buttons cancel_id title message detail
                  icon))
 \<and> (icon = None \<longrightarrow>
      MainIcon (ShowMessageBoxUTF16_config P parent type buttons cancel_id title message detail
                  icon) =
        pszMainIcon (case type of
                       MESSAGE_BOX_TYPE_INFORMATION \<Rightarrow> Some TD_INFORMATION_ICON
                     | MESSAGE_BOX_TYPE_WARNING \<Rightarrow> Some TD_WARNING_ICON
                     | MESSAGE_BOX_TYPE_ERROR \<Rightarrow> Some TD_ERROR_ICON
                     | MESSAGE_BOX_TYPE_other n \<Rightarrow> None)
    \<and> \<not> flag_set (dwFlags (ShowMessageBoxUTF16_config P parent type buttons cancel_id title
                  message detail icon)) TDF_USE_HICON_MAIN)"
  by (simp add: ShowMessageBoxUTF16_config_def Let_def flag_set_def TDF_USE_HICON_MAIN_def
      TDF_SIZE_TO_CONTENT_def TDF_ALLOW_DIALOG_CANCELLATION_def
      split: option.splits MessageBoxType.splits)

theorem icon_precedence_witness:
  "MainIcon (ShowMessageBoxUTF16_config (answering None True) 0 MESSAGE_BOX_TYPE_WARNING
     ok_cancel16 1 [0x74] [0x6D] [] (Some [1, 2, 3])) = hMainIcon 4
 \<and> flag_set (dwFlags (ShowMessageBoxUTF16_config (answering None True) 0
     MESSAGE_BOX_TYPE_WARNING ok_cancel16 1 [0x74] [0x6D] [] (Some [1, 2, 3])))
     TDF_USE_HICON_MAIN
 \<and> MainIcon (ShowMessageBoxUTF16_config (answering None True) 0 MESSAGE_BOX_TYPE_WARNING
     ok_cancel16 1 [0x74] [0x6D] [] None) = pszMainIcon (Some TD_WARNING_ICON)
 \<and> \<not> flag_set (dwFlags (ShowMessageBoxUTF16_config (answering None True) 0
     MESSAGE_BOX_TYPE_WARNING ok_cancel16 1 [0x74] [0x6D] [] None)) TDF_USE_HICON_MAIN"
  using icon_precedence [of "Some [1, 2, 3]" "answering None True" 0 MESSAGE_BOX_TYPE_WARNING
      ok_cancel16 1 "[0x74]" "[0x6D]" "[]"]
    icon_precedence [of None "answering None True" 0 MESSAGE_BOX_TYPE_WARNING
      ok_cancel16 1 "[0x74]" "[0x6D]" "[]"]
  by (simp add: answering_def)

text \<open>
  Claim C8. \<^verbatim>\<open>TDF_SIZE_TO_CONTENT\<close> is always set in the flags of the dialog, and
  \<^verbatim>\<open>TDF_ALLOW_DIALOG_CANCELLATION\<close> is set if and only if the cancel index is not zero.
\<close>

theorem dialog_flags:
  "flag_set (dwFlags (ShowMessageBoxUTF16_config P parent type buttons cancel_id title message
                        detail icon)) TDF_SIZE_TO_CONTENT
 \<and> (flag_set (dwFlags (ShowMessageBoxUTF16_config P parent type buttons cancel_id title message
                        detail icon)) TDF_ALLOW_DIALOG_CANCELLATION
      \<longleftrightarrow> cancel_id \<noteq> 0)"
  by (simp add: ShowMessageBoxUTF16_config_def Let_def flag_set_def TDF_USE_HICON_MAIN_def
      TDF_SIZE_TO_CONTENT_def TDF_ALLOW_DIALOG_CANCELLATION_def
      split: option.splits MessageBoxType.splits)

theorem dialog_flags_witness:
  "flag_set (dwFlags (ShowMessageBoxUTF16_config (answering None True) 0
     MESSAGE_BOX_TYPE_WARNING ok_cancel16 1 [0x74] [0x6D] [] None)) TDF_SIZE_TO_CONTENT
 \<and> flag_set (dwFlags (ShowMessageBoxUTF16_config (answering None True) 0
     MESSAGE_BOX_TYPE_WARNING ok_cancel16 1 [0x74] [0x6D] [] None)) TDF_ALLOW_DIALOG_CANCELLATION
 \<and> \<not> flag_set (dwFlags (ShowMessageBoxUTF16_config (answering None True) 0
     MESSAGE_BOX_TYPE_WARNING ok_cancel16 0 [0x74] [0x6D] [] None)) TDF_ALLOW_DIALOG_CANCELLATION"
  using dialog_flags [of "answering None True" 0 MESSAGE_BOX_TYPE_WARNING ok_cancel16 1 "[0x74]"
      "[0x6D]" "[]" None]
    dialog_flags [of "answering None True" 0 MESSAGE_BOX_TYPE_WARNING ok_cancel16 0 "[0x74]"
      "[0x6D]" "[]" None]
  by simp

subsection \<open>\<^verbatim>\<open>ShowErrorBox\<close> and the empty button sequence\<close>

text \<open>
  Claim C9. \<open>ShowErrorBox\<close> leaves the world as it is, whatever the title and the
  content: no dialog shown, no callback run, no task posted, no thread created.
\<close>

theorem ShowErrorBox_noop: "ShowErrorBox title content w = w"
  by (simp add: ShowErrorBox_def)

text \<open>
  Claim C10. \<open>ShowMessageBoxUTF16\<close> takes \<^verbatim>\<open>front()\<close> of an empty vector exactly when
  the button sequence is empty, and so do the operations that run it, the synchronous
  \<open>ShowMessageBox\<close> and \<open>RunMessageBoxInNewThread\<close>: their results hold under the
  hypothesis that the sequence is not empty, and under it this error is not reached.
\<close>

theorem empty_buttons_undefined:
  "(ShowMessageBoxUTF16 P hwnd type buttons16 cancel_id title16 message16 detail16 icon w =
      Inl EmptyVectorFront) = (buttons16 = [])
 \<and> (ShowMessageBox P parent type buttons cancel_id title message detail icon w =
      Inl EmptyVectorFront) = (buttons = [])
 \<and> (RunMessageBoxInNewThread P thread parent type buttons cancel_id title message detail icon
      callback w = Inl EmptyVectorFront) = (buttons = [])"
proof -
  have a: "(ShowMessageBoxUTF16 P h t b c ti m d i w = Inl EmptyVectorFront) = (b = [])"
    for h t b c ti m d i
    by (auto simp: ShowMessageBoxUTF16_def Let_def dialog_buttons_empty)
  have b: "(ShowMessageBox P parent type buttons cancel_id title message detail icon w =
      Inl EmptyVectorFront) = (buttons = [])"
    by (simp add: ShowMessageBox_def Let_def a)
  have c: "(RunMessageBoxInNewThread P thread parent type buttons cancel_id title message detail
      icon callback w = Inl EmptyVectorFront) = (buttons = [])"
    using b by (auto simp: RunMessageBoxInNewThread_def Let_def split: sum.splits)
  show ?thesis
    using a b c by simp
qed

theorem empty_buttons_undefined_witness:
  "ShowMessageBoxUTF16 (answering (Some 1) True) 0 MESSAGE_BOX_TYPE_WARNING [] 1 [0x74] [0x6D] []
     None idle = Inl EmptyVectorFront
 \<and> ShowMessageBoxUTF16 (answering (Some 1) True) 0 MESSAGE_BOX_TYPE_WARNING ok_cancel16 1
     [0x74] [0x6D] [] None idle \<noteq> Inl EmptyVectorFront
 \<and> ShowMessageBox (answering (Some 1) True) None MESSAGE_BOX_TYPE_WARNING [] 1 ''t'' ''m'' ''''
     None idle = Inl EmptyVectorFront
 \<and> RunMessageBoxInNewThread (answering (Some 1) True) 0 None MESSAGE_BOX_TYPE_WARNING ok_cancel 1
     ''t'' ''m'' '''' None 7 idle \<noteq> Inl EmptyVectorFront"
  using empty_buttons_undefined [where P = "answering (Some 1) True" and hwnd = 0
      and type = MESSAGE_BOX_TYPE_WARNING and ?buttons16.0 = "[]" and cancel_id = 1
      and ?title16.0 = "[0x74]" and ?message16.0 = "[0x6D]" and ?detail16.0 = "[]"
      and icon = None and w = idle and parent = None and buttons = "[]" and title = "''t''"
      and message = "''m''" and detail = "''''" and thread = 0 and callback = 7]
    empty_buttons_undefined [where P = "answering (Some 1) True" and hwnd = 0
      and type = MESSAGE_BOX_TYPE_WARNING and ?buttons16.0 = ok_cancel16 and cancel_id = 1
      and ?title16.0 = "[0x74]" and ?message16.0 = "[0x6D]" and ?detail16.0 = "[]"
      and icon = None and w = idle and parent = None and buttons = ok_cancel and title = "''t''"
      and message = "''m''" and detail = "''''" and thread = 0 and callback = 7]
  by (simp add: ok_cancel16_def ok_cancel_def)

end
